theory Spec2Isabelle
  imports Main
begin

section \<open>The chat worker: router and chat handler of src/index.ts\<close>

text \<open>
  The worker exports one entry point, \<open>fetch\<close>, which routes on the path and the
  method of the request, and one helper, \<open>handleChatRequest\<close>, which parses the body,
  adds the system prompt when the conversation has none, calls the model and relays its
  response. Both are \<open>async\<close>; every \<open>await\<close> of the source is awaited in place, so
  the model is sequential: a call returns a value or raises, and what it did to the
  outside (the two bindings of \<open>env\<close>, the console) is kept in a list of events.
\<close>

subsection \<open>Values\<close>

text \<open>
  What \<open>request.json()\<close> yields: a JavaScript value built by the JSON parser. An object
  is the list of its own properties in the order the engine enumerates them, every key
  once (of a key repeated in the text the parser keeps the last value). Strings are the
  UTF-8 bytes of the text. Numbers are never inspected by the worker; the model keeps
  the integers.
\<close>

datatype json =
    JNull
  | JBool bool
  | JNum int
  | JStr string
  | JArr "json list"
  | JObj "(string \<times> json) list"

text \<open>
  What a call can raise. \<open>SyntaxError\<close>: the body is no JSON text. \<open>TypeError\<close>: a
  property of \<open>null\<close> is read, or a value that is no function is called. \<open>Failure\<close>:
  anything a binding of the environment (or the reading of the body) raises.
\<close>

datatype js_error = SyntaxError | TypeError | Failure string

text \<open>
  The request, as far as the worker reads it: \<open>new URL(request.url).pathname\<close>,
  \<open>request.method\<close> and the outcome of \<open>await request.json()\<close>.
\<close>

record request =
  pathname :: string
  req_method :: string
  json_result :: "js_error + json"

record response =
  status :: nat
  headers :: "(string \<times> string) list"
  body :: string

text \<open>The second and third argument of \<open>env.AI.run\<close>.\<close>

record ai_inputs =
  messages :: "json list"
  max_tokens :: nat

record ai_options =
  returnRawResponse :: bool

text \<open>The two bindings the worker holds; either may raise.\<close>

record env =
  ASSETS :: "request \<Rightarrow> js_error + response"
  AI :: "string \<Rightarrow> ai_inputs \<Rightarrow> ai_options \<Rightarrow> js_error + response"

text \<open>
  The effects of one request, in the order they happen: a call of \<open>env.ASSETS.fetch\<close>
  with its argument, a call of \<open>env.AI.run\<close> with its three arguments, a call of
  \<open>console.error\<close> with its two arguments.
\<close>

datatype event =
    AssetsFetch request
  | AIRun string ai_inputs ai_options
  | ConsoleError string js_error

subsection \<open>Constants\<close>

definition MODEL_ID :: string where
  "MODEL_ID = ''@cf/google/gemma-3-12b-it''"

text \<open>
  The template literal \<open>SYSTEM_PROMPT\<close> (lines 17 to 37 of the source, from the line
  break after the opening backquote to the one before the closing backquote), as its
  UTF-8 bytes. The second, unnamed source file is the same worker with another model
  identifier and another prompt; no proof below unfolds either constant.
\<close>

definition SYSTEM_PROMPT_utf8 :: "nat list" where
  "SYSTEM_PROMPT_utf8 =
  [10, 228, 189, 160, 230, 152, 175, 228, 184, 128, 229, 144, 141, 233, 171, 152, 228, 184, 173, 232,
   139, 177, 232, 175, 173, 232, 128, 129, 229, 184, 136, 239, 188, 140, 231, 142, 176, 230, 156, 137,
   228, 184, 128, 231, 175, 135, 232, 139, 177, 232, 175, 173, 228, 185, 166, 228, 191, 161, 228, 189,
   156, 230, 150, 135, 233, 156, 128, 232, 166, 129, 228, 189, 160, 230, 137, 185, 230, 148, 185, 239,
   188, 140, 228, 189, 160, 233, 156, 128, 232, 166, 129, 229, 175, 185, 232, 191, 153, 231, 175, 135,
   228, 189, 156, 230, 150, 135, 232, 175, 132, 229, 136, 134, 40, 230, 187, 161, 229, 136, 134, 228,
   184, 186, 49, 53, 229, 136, 134, 41, 229, 185, 182, 230, 137, 190, 229, 135, 186, 230, 150, 135,
   231, 171, 160, 228, 184, 173, 230, 137, 128, 230, 156, 137, 231, 154, 132, 230, 139, 188, 229, 134,
   153, 233, 148, 153, 232, 175, 175, 239, 188, 140, 231, 148, 168, 232, 175, 141, 228, 184, 141, 229,
   189, 147, 228, 187, 165, 229, 143, 138, 232, 175, 173, 230, 179, 149, 233, 148, 153, 232, 175, 175,
   239, 188, 155, 229, 144, 140, 230, 151, 182, 230, 137, 190, 229, 135, 186, 230, 150, 135, 231, 171,
   160, 228, 184, 173, 231, 154, 132, 233, 171, 152, 231, 186, 167, 232, 175, 141, 230, 177, 135, 239,
   188, 140, 228, 186, 174, 231, 130, 185, 232, 161, 168, 232, 190, 190, 239, 188, 155, 230, 156, 128,
   229, 144, 142, 239, 188, 140, 228, 189, 160, 232, 191, 152, 233, 156, 128, 232, 166, 129, 228, 184,
   186, 232, 175, 165, 229, 144, 140, 229, 173, 166, 230, 143, 144, 229, 135, 186, 229, 134, 153, 228,
   189, 156, 232, 191, 155, 230, 173, 165, 231, 154, 132, 229, 187, 186, 232, 174, 174, 227, 128, 130,
   10, 228, 184, 186, 228, 186, 134, 229, 174, 154, 228, 189, 141, 239, 188, 140, 232, 175, 183, 229,
   176, 134, 230, 150, 135, 231, 171, 160, 228, 184, 173, 231, 154, 132, 230, 137, 128, 230, 156, 137,
   233, 148, 153, 232, 175, 175, 231, 154, 132, 229, 188, 128, 229, 167, 139, 228, 184, 139, 230, 160,
   135, 228, 184, 142, 231, 187, 147, 230, 157, 159, 228, 184, 139, 230, 160, 135, 232, 191, 148, 229,
   155, 158, 239, 188, 155, 229, 175, 185, 228, 186, 142, 233, 148, 153, 232, 175, 175, 229, 136, 134,
   230, 158, 144, 239, 188, 140, 232, 175, 183, 232, 175, 166, 231, 187, 134, 229, 136, 134, 230, 158,
   144, 232, 175, 173, 230, 179, 149, 231, 159, 165, 232, 175, 134, 231, 130, 185, 229, 185, 182, 231,
   187, 153, 229, 135, 186, 228, 184, 128, 229, 174, 154, 231, 154, 132, 230, 173, 163, 228, 190, 139,
   228, 184, 142, 229, 143, 141, 228, 190, 139, 239, 188, 155, 229, 175, 185, 228, 186, 142, 228, 186,
   174, 231, 130, 185, 229, 136, 134, 230, 158, 144, 239, 188, 140, 232, 175, 183, 232, 175, 166, 231,
   187, 134, 231, 187, 153, 229, 135, 186, 228, 186, 174, 231, 130, 185, 231, 154, 132, 228, 188, 152,
   231, 167, 128, 228, 185, 139, 229, 164, 132, 227, 128, 130, 10, 228, 189, 156, 230, 150, 135, 239,
   188, 154, 123, 101, 115, 115, 97, 121, 125, 10, 232, 190, 147, 229, 135, 186, 230, 160, 188, 229,
   188, 143, 229, 166, 130, 228, 184, 139, 239, 188, 136, 232, 175, 183, 228, 184, 165, 230, 160, 188,
   230, 140, 137, 231, 133, 167, 229, 136, 134, 231, 130, 185, 229, 146, 140, 233, 128, 187, 232, 190,
   145, 233, 161, 186, 229, 186, 143, 232, 190, 147, 229, 135, 186, 239, 188, 137, 239, 188, 154, 10,
   10, 228, 184, 128, 227, 128, 129, 232, 175, 132, 229, 136, 134, 32, 32, 10, 230, 128, 187, 229,
   136, 134, 239, 188, 136, 230, 187, 161, 229, 136, 134, 49, 53, 229, 136, 134, 239, 188, 137, 239,
   188, 154, 120, 120, 229, 136, 134, 32, 32, 10, 10, 228, 186, 140, 227, 128, 129, 233, 148, 153,
   232, 175, 175, 229, 136, 134, 230, 158, 144, 32, 32, 10, 49, 46, 32, 230, 139, 188, 229, 134,
   153, 233, 148, 153, 232, 175, 175, 239, 188, 154, 229, 136, 151, 229, 135, 186, 230, 137, 128, 230,
   156, 137, 230, 139, 188, 229, 134, 153, 233, 148, 153, 232, 175, 175, 231, 154, 132, 232, 175, 141,
   232, 175, 173, 227, 128, 129, 230, 173, 163, 231, 161, 174, 230, 139, 188, 229, 134, 153, 239, 188,
   140, 229, 185, 182, 230, 160, 135, 230, 179, 168, 229, 156, 168, 230, 150, 135, 231, 171, 160, 228,
   184, 173, 231, 154, 132, 229, 188, 128, 229, 167, 139, 228, 184, 139, 230, 160, 135, 228, 184, 142,
   231, 187, 147, 230, 157, 159, 228, 184, 139, 230, 160, 135, 227, 128, 130, 228, 190, 139, 229, 166,
   130, 239, 188, 154, 226, 128, 156, 97, 99, 104, 101, 105, 118, 101, 226, 128, 157, 239, 188, 136,
   229, 186, 148, 228, 184, 186, 226, 128, 156, 97, 99, 104, 105, 101, 118, 101, 226, 128, 157, 239,
   188, 140, 228, 189, 141, 231, 189, 174, 49, 50, 126, 49, 57, 239, 188, 137, 32, 32, 10, 50,
   46, 32, 232, 175, 173, 230, 179, 149, 233, 148, 153, 232, 175, 175, 239, 188, 154, 232, 175, 166,
   231, 187, 134, 229, 136, 134, 230, 158, 144, 229, 173, 152, 229, 156, 168, 231, 154, 132, 232, 175,
   173, 230, 179, 149, 233, 151, 174, 233, 162, 152, 239, 188, 140, 232, 175, 180, 230, 152, 142, 230,
   137, 128, 230, 182, 137, 229, 143, 138, 231, 154, 132, 232, 175, 173, 230, 179, 149, 231, 159, 165,
   232, 175, 134, 231, 130, 185, 239, 188, 140, 228, 184, 190, 229, 135, 186, 230, 173, 163, 228, 190,
   139, 228, 184, 142, 229, 143, 141, 228, 190, 139, 229, 138, 160, 228, 187, 165, 232, 175, 180, 230,
   152, 142, 32, 32, 10, 51, 46, 32, 231, 148, 168, 232, 175, 141, 228, 184, 141, 229, 189, 147,
   239, 188, 154, 230, 140, 135, 229, 135, 186, 228, 184, 141, 230, 129, 176, 229, 189, 147, 231, 154,
   132, 231, 148, 168, 232, 175, 141, 229, 185, 182, 232, 167, 163, 233, 135, 138, 229, 142, 159, 229,
   155, 160, 239, 188, 140, 230, 143, 144, 228, 190, 155, 230, 155, 180, 229, 144, 136, 233, 128, 130,
   231, 154, 132, 230, 155, 191, 228, 187, 163, 232, 161, 168, 232, 190, 190, 32, 32, 10, 10, 228,
   184, 137, 227, 128, 129, 228, 186, 174, 231, 130, 185, 229, 136, 134, 230, 158, 144, 32, 32, 10,
   49, 46, 32, 233, 171, 152, 231, 186, 167, 232, 175, 141, 230, 177, 135, 239, 188, 154, 229, 136,
   151, 229, 135, 186, 230, 150, 135, 228, 184, 173, 228, 189, 191, 231, 148, 168, 231, 154, 132, 233,
   171, 152, 231, 186, 167, 232, 175, 141, 230, 177, 135, 239, 188, 140, 229, 185, 182, 231, 174, 128,
   232, 166, 129, 232, 175, 180, 230, 152, 142, 229, 174, 131, 228, 187, 172, 231, 154, 132, 233, 171,
   152, 231, 186, 167, 228, 185, 139, 229, 164, 132, 32, 32, 10, 50, 46, 32, 228, 186, 174, 231,
   130, 185, 232, 161, 168, 232, 190, 190, 239, 188, 154, 230, 140, 135, 229, 135, 186, 230, 150, 135,
   228, 184, 173, 231, 154, 132, 228, 188, 152, 231, 167, 128, 229, 143, 165, 229, 188, 143, 227, 128,
   129, 233, 128, 187, 232, 190, 145, 231, 187, 147, 230, 158, 132, 230, 136, 150, 232, 175, 173, 232,
   168, 128, 232, 161, 168, 232, 190, 190, 239, 188, 140, 229, 185, 182, 232, 175, 180, 230, 152, 142,
   229, 133, 182, 228, 186, 174, 231, 130, 185, 228, 187, 183, 229, 128, 188, 32, 32, 10, 10, 229,
   155, 155, 227, 128, 129, 229, 134, 153, 228, 189, 156, 229, 187, 186, 232, 174, 174, 32, 32, 10,
   230, 160, 185, 230, 141, 174, 230, 156, 172, 230, 172, 161, 228, 189, 156, 230, 150, 135, 231, 154,
   132, 232, 161, 168, 231, 142, 176, 239, 188, 140, 230, 143, 144, 229, 135, 186, 230, 156, 137, 233,
   146, 136, 229, 175, 185, 230, 128, 167, 231, 154, 132, 230, 143, 144, 229, 141, 135, 229, 187, 186,
   232, 174, 174, 239, 188, 140, 229, 166, 130, 229, 143, 165, 229, 188, 143, 229, 164, 154, 230, 160,
   183, 230, 128, 167, 227, 128, 129, 232, 175, 173, 230, 179, 149, 230, 142, 140, 230, 143, 161, 227,
   128, 129, 233, 128, 187, 232, 190, 145, 231, 187, 147, 230, 158, 132, 231, 173, 137, 230, 150, 185,
   233, 157, 162, 227, 128, 130, 10]"

definition SYSTEM_PROMPT :: string where
  "SYSTEM_PROMPT = map char_of SYSTEM_PROMPT_utf8"

subsection \<open>Library functions the worker calls\<close>

text \<open>\<open>String.prototype.startsWith\<close>, on the receiver and the searched prefix.\<close>

definition startsWith :: "string \<Rightarrow> string \<Rightarrow> bool" where
  "startsWith s p = (take (length p) s = p)"

text \<open>
  \<open>new Response(body, { status, headers })\<close> with a string body. Only what the
  source writes is kept: the status, the headers of the init object, the body text.
  (To a text body whose init names no content type the runtime adds one of its own,
  \<open>text/plain\<close>; the field \<open>headers\<close> does not record it.)
\<close>

definition new_Response :: "string \<Rightarrow> nat \<Rightarrow> (string \<times> string) list \<Rightarrow> response" where
  "new_Response b s h = \<lparr>status = s, headers = h, body = b\<rparr>"

text \<open>
  Reading the member \<open>k\<close> of a parsed value, for a name that no built-in prototype
  defines (the worker reads \<open>messages\<close> and \<open>role\<close>): \<open>null\<close> has no members and the
  read raises; an object yields its own property or \<open>undefined\<close> (here \<open>None\<close>); a
  number, string, boolean or array is read through its prototype, which yields
  \<open>undefined\<close>.
\<close>

fun get_member :: "json \<Rightarrow> string \<Rightarrow> js_error + json option" where
  "get_member JNull k = Inl TypeError"
| "get_member (JObj kvs) k = Inr (map_of kvs k)"
| "get_member (JBool b) k = Inr None"
| "get_member (JNum n) k = Inr None"
| "get_member (JStr s) k = Inr None"
| "get_member (JArr xs) k = Inr None"

text \<open>
  \<open>Array.prototype.some\<close>: the elements in order, stopping at the first for which the
  callback is true; a raise of the callback ends the scan.
\<close>

fun array_some :: "(json \<Rightarrow> js_error + bool) \<Rightarrow> json list \<Rightarrow> js_error + bool" where
  "array_some f [] = Inr False"
| "array_some f (x # xs) =
     (case f x of
        Inl e \<Rightarrow> Inl e
      | Inr found \<Rightarrow> if found then Inr True else array_some f xs)"

subsection \<open>\<open>JSON.stringify\<close>\<close>

definition hex_digit :: "nat \<Rightarrow> char" where
  "hex_digit n = ''0123456789abcdef'' ! (n mod 16)"

text \<open>The quoting of one character inside a JSON string.\<close>

definition quote_char :: "char \<Rightarrow> string" where
  "quote_char c =
     (if c = CHR 0x22 then [CHR 0x5C, CHR 0x22]
      else if c = CHR 0x5C then [CHR 0x5C, CHR 0x5C]
      else if c = CHR 0x08 then [CHR 0x5C, CHR ''b'']
      else if c = CHR 0x0C then [CHR 0x5C, CHR ''f'']
      else if c = CHR 0x0A then [CHR 0x5C, CHR ''n'']
      else if c = CHR 0x0D then [CHR 0x5C, CHR ''r'']
      else if c = CHR 0x09 then [CHR 0x5C, CHR ''t'']
      else if (of_char c :: nat) < 32 then
        [CHR 0x5C, CHR ''u'', CHR ''0'', CHR ''0'',
         hex_digit (of_char c div 16), hex_digit (of_char c mod 16)]
      else [c])"

definition quote_string :: "string \<Rightarrow> string" where
  "quote_string s = [CHR 0x22] @ concat (map quote_char s) @ [CHR 0x22]"

fun show_nat :: "nat \<Rightarrow> string" where
  "show_nat n =
     (if n < 10 then [char_of (48 + n)]
      else show_nat (n div 10) @ [char_of (48 + n mod 10)])"

definition show_int :: "int \<Rightarrow> string" where
  "show_int i = (if i < 0 then ''-'' @ show_nat (nat (- i)) else show_nat (nat i))"

fun join_comma :: "string list \<Rightarrow> string" where
  "join_comma [] = []"
| "join_comma [s] = s"
| "join_comma (s # t # ss) = s @ '','' @ join_comma (t # ss)"

fun JSON_stringify :: "json \<Rightarrow> string" where
  "JSON_stringify JNull = ''null''"
| "JSON_stringify (JBool b) = (if b then ''true'' else ''false'')"
| "JSON_stringify (JNum n) = show_int n"
| "JSON_stringify (JStr s) = quote_string s"
| "JSON_stringify (JArr xs) = ''['' @ join_comma (map JSON_stringify xs) @ '']''"
| "JSON_stringify (JObj kvs) =
     ''{'' @ join_comma (map (\<lambda>kv. quote_string (fst kv) @ '':'' @ JSON_stringify (snd kv)) kvs)
       @ ''}''"

subsection \<open>The chat handler\<close>

text \<open>
  Line 80, \<open>const { messages = [] } = (await request.json())\<close>, on the parsed value:
  the member \<open>messages\<close> is read, and the default \<open>[]\<close> stands in only when the member
  is \<open>undefined\<close>. The cast to \<open>{ messages: ChatMessage[] }\<close> checks nothing at run time.
\<close>

definition destructure_messages :: "json \<Rightarrow> js_error + json" where
  "destructure_messages parsed =
     (case get_member parsed ''messages'' of
        Inl e \<Rightarrow> Inl e
      | Inr None \<Rightarrow> Inr (JArr [])
      | Inr (Some m) \<Rightarrow> Inr m)"

text \<open>The callback of line 85, \<open>(msg) => msg.role === "system"\<close>.\<close>

definition role_is_system :: "json \<Rightarrow> js_error + bool" where
  "role_is_system msg =
     (case get_member msg ''role'' of
        Inl e \<Rightarrow> Inl e
      | Inr r \<Rightarrow> Inr (r = Some (JStr ''system'')))"

text \<open>The object literal of line 86.\<close>

definition system_message :: json where
  "system_message = JObj [(''role'', JStr ''system''), (''content'', JStr SYSTEM_PROMPT)]"

text \<open>
  Lines 85 to 87 on the value bound to \<open>messages\<close>. On an array, \<open>some\<close> scans it and
  \<open>unshift\<close> puts the system message in front when the scan found none. On \<open>null\<close>
  the read of \<open>some\<close> raises; on any other value \<open>some\<close> is \<open>undefined\<close> or, for an
  object with such a key, a parsed value, and calling it raises.
\<close>

definition add_system_prompt :: "json \<Rightarrow> js_error + json list" where
  "add_system_prompt msgs =
     (case msgs of
        JArr xs \<Rightarrow>
          (case array_some role_is_system xs of
             Inl e \<Rightarrow> Inl e
           | Inr found \<Rightarrow> Inr (if \<not> found then system_message # xs else xs))
      | _ \<Rightarrow> Inl TypeError)"

text \<open>The \<open>try\<close> block, lines 79 to 107: its value or what it raised, and its effects.\<close>

definition chat_try :: "request \<Rightarrow> env \<Rightarrow> (js_error + response) \<times> event list" where
  "chat_try request env =
     (case json_result request of
        Inl e \<Rightarrow> (Inl e, [])
      | Inr parsed \<Rightarrow>
     (case destructure_messages parsed of
        Inl e \<Rightarrow> (Inl e, [])
      | Inr msgs \<Rightarrow>
     (case add_system_prompt msgs of
        Inl e \<Rightarrow> (Inl e, [])
      | Inr msgs' \<Rightarrow>
          (AI env MODEL_ID \<lparr>messages = msgs', max_tokens = 1024\<rparr> \<lparr>returnRawResponse = True\<rparr>,
           [AIRun MODEL_ID \<lparr>messages = msgs', max_tokens = 1024\<rparr>
              \<lparr>returnRawResponse = True\<rparr>]))))"

text \<open>The response built in the \<open>catch\<close> block, lines 110 to 116.\<close>

definition error_response :: response where
  "error_response =
     new_Response (JSON_stringify (JObj [(''error'', JStr ''Failed to process request'')]))
       500 [(''content-type'', ''application/json'')]"

text \<open>
  \<open>handleChatRequest\<close>: the \<open>try\<close> block, and the \<open>catch\<close> block on whatever it
  raised. The result is a sum as for every call, although no branch ends in \<open>Inl\<close>.
\<close>

definition handleChatRequest :: "request \<Rightarrow> env \<Rightarrow> (js_error + response) \<times> event list" where
  "handleChatRequest request env =
     (case chat_try request env of
        (Inr r, tr) \<Rightarrow> (Inr r, tr)
      | (Inl e, tr) \<Rightarrow>
          (Inr error_response, tr @ [ConsoleError ''Error processing chat request:'' e]))"

subsection \<open>The router\<close>

text \<open>\<open>fetch\<close>, lines 43 to 68; the argument \<open>ctx\<close> is not used.\<close>

definition fetch :: "request \<Rightarrow> env \<Rightarrow> (js_error + response) \<times> event list" where
  "fetch request env =
     (if pathname request = ''/'' \<or> \<not> startsWith (pathname request) ''/api/'' then
        (ASSETS env request, [AssetsFetch request])
      else if pathname request = ''/api/chat'' then
        (if req_method request = ''POST'' then handleChatRequest request env
         else (Inr (new_Response ''Method not allowed'' 405 []), []))
      else (Inr (new_Response ''Not found'' 404 []), []))"

subsection \<open>Observing a run\<close>

text \<open>The calls of \<open>env.AI.run\<close> among the effects of a run, with their arguments.\<close>

fun ai_calls :: "event list \<Rightarrow> (string \<times> ai_inputs \<times> ai_options) list" where
  "ai_calls [] = []"
| "ai_calls (AIRun m i opts # es) = (m, i, opts) # ai_calls es"
| "ai_calls (AssetsFetch r # es) = ai_calls es"
| "ai_calls (ConsoleError s e # es) = ai_calls es"

subsection \<open>Example requests and environments\<close>

text \<open>A POST to the chat endpoint whose body parses to \<open>v\<close>.\<close>

definition post_chat :: "json \<Rightarrow> request" where
  "post_chat v = \<lparr>pathname = ''/api/chat'', req_method = ''POST'', json_result = Inr v\<rparr>"

definition user_hi :: json where
  "user_hi = JObj [(''role'', JStr ''user''), (''content'', JStr ''Hi'')]"

definition system_x :: json where
  "system_x = JObj [(''role'', JStr ''system''), (''content'', JStr ''X'')]"

definition ok_response :: response where
  "ok_response =
     \<lparr>status = 200, headers = [(''content-type'', ''text/event-stream'')], body = ''data: ok''\<rparr>"

definition index_response :: response where
  "index_response = \<lparr>status = 200, headers = [], body = ''index''\<rparr>"

text \<open>An environment whose bindings answer every call, and one whose model call raises.\<close>

definition stub_env :: env where
  "stub_env = \<lparr>ASSETS = (\<lambda>r. Inr index_response), AI = (\<lambda>m i opts. Inr ok_response)\<rparr>"

definition failing_env :: env where
  "failing_env =
     \<lparr>ASSETS = (\<lambda>r. Inr index_response), AI = (\<lambda>m i opts. Inl (Failure ''quota''))\<rparr>"

section \<open>Properties\<close>

subsection \<open>Auxiliary facts\<close>

lemma startsWith_api_not_root: "startsWith p ''/api/'' \<Longrightarrow> p \<noteq> ''/''"
  by (auto simp: startsWith_def)

lemma error_response_fields:
  "status error_response = 500"
  "headers error_response = [(''content-type'', ''application/json'')]"
  "body error_response =
     [CHR ''{'', CHR 0x22] @ ''error'' @ [CHR 0x22, CHR '':'', CHR 0x22]
       @ ''Failed to process request'' @ [CHR 0x22, CHR ''}'']"
  by (simp_all add: error_response_def new_Response_def quote_string_def quote_char_def)

lemma chat_try_json_raises:
  "json_result request = Inl e \<Longrightarrow> chat_try request env = (Inl e, [])"
  by (simp add: chat_try_def)

lemma chat_try_destructure_raises:
  "json_result request = Inr parsed \<Longrightarrow> destructure_messages parsed = Inl e \<Longrightarrow>
   chat_try request env = (Inl e, [])"
  by (simp add: chat_try_def)

lemma chat_try_normalize_raises:
  "json_result request = Inr parsed \<Longrightarrow> destructure_messages parsed = Inr msgs \<Longrightarrow>
   add_system_prompt msgs = Inl e \<Longrightarrow> chat_try request env = (Inl e, [])"
  by (simp add: chat_try_def)

lemma handle_of_try_raises:
  "chat_try request env = (Inl e, tr) \<Longrightarrow>
   handleChatRequest request env =
     (Inr error_response, tr @ [ConsoleError ''Error processing chat request:'' e])"
  by (simp add: handleChatRequest_def)

lemma handle_returns: "\<exists>r. fst (handleChatRequest request env) = Inr r"
  by (cases "chat_try request env") (auto simp: handleChatRequest_def split: sum.splits)

lemma handle_trace_nonempty: "snd (handleChatRequest request env) \<noteq> []"
  by (auto simp: handleChatRequest_def chat_try_def split: sum.splits prod.splits)

lemma array_some_raises:
  "\<forall>m \<in> set pre. f m = Inr False \<Longrightarrow> f x = Inl e \<Longrightarrow>
   array_some f (pre @ x # post) = Inl e"
  by (induction pre) auto

lemma role_is_system_cases:
  "role_is_system m =
     (if m = JNull then Inl TypeError
      else Inr (get_member m ''role'' = Inr (Some (JStr ''system''))))"
  by (cases m) (auto simp: role_is_system_def)

lemma array_some_exists:
  "JNull \<notin> set ms \<Longrightarrow>
   array_some role_is_system ms =
     Inr (\<exists>m \<in> set ms. get_member m ''role'' = Inr (Some (JStr ''system'')))"
  by (induction ms) (auto simp: role_is_system_cases)

lemma handle_not_assets:
  "handleChatRequest request env \<noteq> (x, [AssetsFetch r])"
  by (auto simp: handleChatRequest_def chat_try_def split: sum.splits prod.splits)

lemma handle_dispatch:
  assumes "json_result request = Inr parsed"
    and "destructure_messages parsed = Inr msgs"
    and "add_system_prompt msgs = Inr sent"
  shows "handleChatRequest request env =
     (case AI env MODEL_ID \<lparr>messages = sent, max_tokens = 1024\<rparr> \<lparr>returnRawResponse = True\<rparr> of
        Inr r \<Rightarrow>
          (Inr r,
           [AIRun MODEL_ID \<lparr>messages = sent, max_tokens = 1024\<rparr> \<lparr>returnRawResponse = True\<rparr>])
      | Inl e \<Rightarrow>
          (Inr error_response,
           [AIRun MODEL_ID \<lparr>messages = sent, max_tokens = 1024\<rparr> \<lparr>returnRawResponse = True\<rparr>,
            ConsoleError ''Error processing chat request:'' e]))"
  using assms by (simp add: handleChatRequest_def chat_try_def split: sum.splits)

lemma handle_dispatch_calls:
  assumes "json_result request = Inr parsed"
    and "destructure_messages parsed = Inr msgs"
    and "add_system_prompt msgs = Inr sent"
  shows "ai_calls (snd (handleChatRequest request env)) =
     [(MODEL_ID, \<lparr>messages = sent, max_tokens = 1024\<rparr>, \<lparr>returnRawResponse = True\<rparr>)]"
  using handle_dispatch [OF assms, of env] by (simp split: sum.splits)

lemma add_system_prompt_none:
  assumes "JNull \<notin> set ms"
    and "\<forall>m \<in> set ms. get_member m ''role'' \<noteq> Inr (Some (JStr ''system''))"
  shows "add_system_prompt (JArr ms) = Inr (system_message # ms)"
  using assms by (simp add: add_system_prompt_def array_some_exists)

lemma array_some_first_system:
  "JNull \<notin> set pre \<Longrightarrow> get_member x ''role'' = Inr (Some (JStr ''system'')) \<Longrightarrow>
   array_some role_is_system (pre @ x # post) = Inr True"
  by (induction pre) (auto simp: role_is_system_cases)

lemma add_system_prompt_first_system:
  assumes "JNull \<notin> set pre"
    and "get_member x ''role'' = Inr (Some (JStr ''system''))"
  shows "add_system_prompt (JArr (pre @ x # post)) = Inr (pre @ x # post)"
  using array_some_first_system [OF assms, of post] by (simp add: add_system_prompt_def)

lemma add_system_prompt_empty: "add_system_prompt (JArr []) = Inr [system_message]"
  by (simp add: add_system_prompt_def)

lemma add_system_prompt_not_array:
  "\<forall>xs. m \<noteq> JArr xs \<Longrightarrow> add_system_prompt m = Inl TypeError"
  by (cases m) (simp_all add: add_system_prompt_def)

lemma destructure_non_object:
  "v \<noteq> JNull \<Longrightarrow> \<forall>kvs. v \<noteq> JObj kvs \<Longrightarrow> destructure_messages v = Inr (JArr [])"
  by (cases v) (simp_all add: destructure_messages_def)

lemma handle_depends_on_messages:
  assumes "json_result request = Inr v" and "json_result request' = Inr v'"
    and "destructure_messages v = destructure_messages v'"
  shows "handleChatRequest request env = handleChatRequest request' env"
  using assms by (simp add: handleChatRequest_def chat_try_def)

subsection \<open>Properties of the chat handler\<close>

text \<open>
  C1 says that whenever the parsed \<open>messages\<close> array holds no element with role
  \<open>system\<close>, the model receives the array with the system message in front. It does
  not for the array \<open>[null]\<close>: no element has role \<open>system\<close>, but the callback reads
  \<open>msg.role\<close> of \<open>null\<close>, which raises; the answer is the uniform error response and the
  model is not called.
\<close>

theorem system_prompt_injected_counterexample:
  "json_result (post_chat (JObj [(''messages'', JArr [JNull])]))
     = Inr (JObj [(''messages'', JArr [JNull])])
   \<and> destructure_messages (JObj [(''messages'', JArr [JNull])]) = Inr (JArr [JNull])
   \<and> get_member JNull ''role'' \<noteq> Inr (Some (JStr ''system''))
   \<and> handleChatRequest (post_chat (JObj [(''messages'', JArr [JNull])])) stub_env
     = (Inr error_response, [ConsoleError ''Error processing chat request:'' TypeError])
   \<and> ai_calls (snd (handleChatRequest (post_chat (JObj [(''messages'', JArr [JNull])]))
        stub_env)) = []"
  by (simp add: handleChatRequest_def chat_try_def post_chat_def destructure_messages_def
        add_system_prompt_def role_is_system_def)

text \<open>
  C1, as the code has it. When the parsed \<open>messages\<close> array holds no \<open>null\<close> and no
  element with role \<open>system\<close>, the model is called once, with a message list one longer
  than the array: its element 0 has role \<open>system\<close> and the fixed prompt as content, and
  the elements after it are the array in order.
\<close>

theorem system_prompt_injected:
  assumes "json_result request = Inr parsed"
    and "destructure_messages parsed = Inr (JArr ms)"
    and "JNull \<notin> set ms"
    and "\<forall>m \<in> set ms. get_member m ''role'' \<noteq> Inr (Some (JStr ''system''))"
  shows "\<exists>sent.
     ai_calls (snd (handleChatRequest request env)) =
       [(MODEL_ID, \<lparr>messages = sent, max_tokens = 1024\<rparr>, \<lparr>returnRawResponse = True\<rparr>)]
     \<and> length sent = length ms + 1
     \<and> get_member (sent ! 0) ''role'' = Inr (Some (JStr ''system''))
     \<and> get_member (sent ! 0) ''content'' = Inr (Some (JStr SYSTEM_PROMPT))
     \<and> (\<forall>i < length ms. sent ! (i + 1) = ms ! i)
     \<and> drop 1 sent = ms"
proof -
  have n: "add_system_prompt (JArr ms) = Inr (system_message # ms)"
    using assms(3,4) by (rule add_system_prompt_none)
  have "ai_calls (snd (handleChatRequest request env)) =
       [(MODEL_ID, \<lparr>messages = system_message # ms, max_tokens = 1024\<rparr>,
         \<lparr>returnRawResponse = True\<rparr>)]"
    using assms(1,2) n by (rule handle_dispatch_calls)
  moreover have "get_member (system_message) ''role'' = Inr (Some (JStr ''system''))"
    by (simp add: system_message_def)
  moreover have "get_member (system_message) ''content'' = Inr (Some (JStr SYSTEM_PROMPT))"
    by (simp add: system_message_def)
  ultimately show ?thesis by simp
qed

theorem system_prompt_injected_witness:
  "\<exists>sent.
     ai_calls (snd (handleChatRequest (post_chat (JObj [(''messages'', JArr [user_hi])]))
        stub_env)) =
       [(MODEL_ID, \<lparr>messages = sent, max_tokens = 1024\<rparr>, \<lparr>returnRawResponse = True\<rparr>)]
     \<and> length sent = 2
     \<and> get_member (sent ! 0) ''role'' = Inr (Some (JStr ''system''))
     \<and> get_member (sent ! 0) ''content'' = Inr (Some (JStr SYSTEM_PROMPT))
     \<and> sent ! 1 = user_hi
     \<and> drop 1 sent = [user_hi]"
  using system_prompt_injected
    [where parsed = "JObj [(''messages'', JArr [user_hi])]" and ms = "[user_hi]"
       and request = "post_chat (JObj [(''messages'', JArr [user_hi])])" and env = stub_env]
  by (simp add: post_chat_def destructure_messages_def user_hi_def numeral_2_eq_2)

text \<open>
  C2 says that whenever the parsed \<open>messages\<close> array holds an element with role
  \<open>system\<close>, at any position, the model receives exactly that array. It does not for
  the array \<open>[null, {"role":"system","content":"X"}]\<close>: the scan reads \<open>msg.role\<close> of
  \<open>null\<close> before it reaches the system message and raises; the answer is the uniform
  error response and the model is not called.
\<close>

theorem system_prompt_kept_counterexample:
  "json_result (post_chat (JObj [(''messages'', JArr [JNull, system_x])]))
     = Inr (JObj [(''messages'', JArr [JNull, system_x])])
   \<and> destructure_messages (JObj [(''messages'', JArr [JNull, system_x])])
     = Inr (JArr [JNull, system_x])
   \<and> get_member system_x ''role'' = Inr (Some (JStr ''system''))
   \<and> handleChatRequest (post_chat (JObj [(''messages'', JArr [JNull, system_x])])) stub_env
     = (Inr error_response, [ConsoleError ''Error processing chat request:'' TypeError])
   \<and> ai_calls (snd (handleChatRequest
        (post_chat (JObj [(''messages'', JArr [JNull, system_x])])) stub_env)) = []"
  by (simp add: handleChatRequest_def chat_try_def post_chat_def destructure_messages_def
        add_system_prompt_def role_is_system_def system_x_def)

text \<open>
  C2, as the code has it. When the parsed \<open>messages\<close> array holds an element with role
  \<open>system\<close>, with any content, and no \<open>null\<close> stands before it, the model is called once
  with exactly that array: nothing is added, removed or moved. What follows the system
  message is not read by the scan and may be anything.
\<close>

theorem system_prompt_kept:
  assumes "json_result request = Inr parsed"
    and "destructure_messages parsed = Inr (JArr (pre @ x # post))"
    and "JNull \<notin> set pre"
    and "get_member x ''role'' = Inr (Some (JStr ''system''))"
  shows "ai_calls (snd (handleChatRequest request env)) =
       [(MODEL_ID, \<lparr>messages = pre @ x # post, max_tokens = 1024\<rparr>,
         \<lparr>returnRawResponse = True\<rparr>)]"
proof -
  have "add_system_prompt (JArr (pre @ x # post)) = Inr (pre @ x # post)"
    using assms(3,4) by (rule add_system_prompt_first_system)
  with assms(1,2) show ?thesis by (rule handle_dispatch_calls)
qed

theorem system_prompt_kept_witness:
  "ai_calls (snd (handleChatRequest
      (post_chat (JObj [(''messages'', JArr [user_hi, system_x, JNull])])) stub_env)) =
     [(MODEL_ID, \<lparr>messages = [user_hi, system_x, JNull], max_tokens = 1024\<rparr>,
       \<lparr>returnRawResponse = True\<rparr>)]"
  using system_prompt_kept
    [where request = "post_chat (JObj [(''messages'', JArr [user_hi, system_x, JNull])])"
       and parsed = "JObj [(''messages'', JArr [user_hi, system_x, JNull])]"
       and pre = "[user_hi]" and x = system_x and post = "[JNull]" and env = stub_env]
  by (simp add: post_chat_def destructure_messages_def user_hi_def system_x_def)

text \<open>
  C3. The chat handler always returns a response. When reading the body, taking
  \<open>messages\<close> out of it, the scan for a system message or the model call raises, the
  response is the one of the \<open>catch\<close> block: status 500, the single header
  \<open>content-type: application/json\<close> and the body \<open>{"error":"Failed to process request"}\<close>,
  and the error is logged. When nothing raises, the response is the model's own and
  nothing is logged.
\<close>

theorem handler_total:
  "(\<exists>r. fst (handleChatRequest request env) = Inr r)
   \<and> (json_result request = Inl e \<longrightarrow>
        handleChatRequest request env =
          (Inr error_response, [ConsoleError ''Error processing chat request:'' e]))
   \<and> (json_result request = Inr parsed \<and> destructure_messages parsed = Inl e \<longrightarrow>
        handleChatRequest request env =
          (Inr error_response, [ConsoleError ''Error processing chat request:'' e]))
   \<and> (json_result request = Inr parsed \<and> destructure_messages parsed = Inr msgs
        \<and> add_system_prompt msgs = Inl e \<longrightarrow>
        handleChatRequest request env =
          (Inr error_response, [ConsoleError ''Error processing chat request:'' e]))
   \<and> (json_result request = Inr parsed \<and> destructure_messages parsed = Inr msgs
        \<and> add_system_prompt msgs = Inr sent
        \<and> AI env MODEL_ID \<lparr>messages = sent, max_tokens = 1024\<rparr> \<lparr>returnRawResponse = True\<rparr>
            = Inl e \<longrightarrow>
        handleChatRequest request env =
          (Inr error_response,
           [AIRun MODEL_ID \<lparr>messages = sent, max_tokens = 1024\<rparr> \<lparr>returnRawResponse = True\<rparr>,
            ConsoleError ''Error processing chat request:'' e]))
   \<and> (json_result request = Inr parsed \<and> destructure_messages parsed = Inr msgs
        \<and> add_system_prompt msgs = Inr sent
        \<and> AI env MODEL_ID \<lparr>messages = sent, max_tokens = 1024\<rparr> \<lparr>returnRawResponse = True\<rparr>
            = Inr r \<longrightarrow>
        handleChatRequest request env =
          (Inr r,
           [AIRun MODEL_ID \<lparr>messages = sent, max_tokens = 1024\<rparr> \<lparr>returnRawResponse = True\<rparr>]))
   \<and> status error_response = 500
   \<and> headers error_response = [(''content-type'', ''application/json'')]
   \<and> body error_response =
        [CHR ''{'', CHR 0x22] @ ''error'' @ [CHR 0x22, CHR '':'', CHR 0x22]
          @ ''Failed to process request'' @ [CHR 0x22, CHR ''}'']"
proof -
  have a: "json_result request = Inl e \<longrightarrow>
        handleChatRequest request env =
          (Inr error_response, [ConsoleError ''Error processing chat request:'' e])"
    using handle_of_try_raises [OF chat_try_json_raises, of request e env] by simp
  have b: "json_result request = Inr parsed \<and> destructure_messages parsed = Inl e \<longrightarrow>
        handleChatRequest request env =
          (Inr error_response, [ConsoleError ''Error processing chat request:'' e])"
    using handle_of_try_raises [OF chat_try_destructure_raises, of request parsed e env] by simp
  have c: "json_result request = Inr parsed \<and> destructure_messages parsed = Inr msgs
        \<and> add_system_prompt msgs = Inl e \<longrightarrow>
        handleChatRequest request env =
          (Inr error_response, [ConsoleError ''Error processing chat request:'' e])"
    using handle_of_try_raises [OF chat_try_normalize_raises, of request parsed msgs e env]
    by simp
  have d: "json_result request = Inr parsed \<and> destructure_messages parsed = Inr msgs
        \<and> add_system_prompt msgs = Inr sent
        \<and> AI env MODEL_ID \<lparr>messages = sent, max_tokens = 1024\<rparr> \<lparr>returnRawResponse = True\<rparr>
            = Inl e \<longrightarrow>
        handleChatRequest request env =
          (Inr error_response,
           [AIRun MODEL_ID \<lparr>messages = sent, max_tokens = 1024\<rparr> \<lparr>returnRawResponse = True\<rparr>,
            ConsoleError ''Error processing chat request:'' e])"
    using handle_dispatch [of request parsed msgs sent env] by simp
  have f: "json_result request = Inr parsed \<and> destructure_messages parsed = Inr msgs
        \<and> add_system_prompt msgs = Inr sent
        \<and> AI env MODEL_ID \<lparr>messages = sent, max_tokens = 1024\<rparr> \<lparr>returnRawResponse = True\<rparr>
            = Inr r \<longrightarrow>
        handleChatRequest request env =
          (Inr r,
           [AIRun MODEL_ID \<lparr>messages = sent, max_tokens = 1024\<rparr> \<lparr>returnRawResponse = True\<rparr>])"
    using handle_dispatch [of request parsed msgs sent env] by simp
  from handle_returns [of request env] a b c d f error_response_fields
  show ?thesis by blast
qed

theorem handler_total_witness:
  "handleChatRequest
      \<lparr>pathname = ''/api/chat'', req_method = ''POST'', json_result = Inl SyntaxError\<rparr> stub_env
     = (Inr error_response, [ConsoleError ''Error processing chat request:'' SyntaxError])
   \<and> handleChatRequest (post_chat (JObj [(''messages'', JArr [system_x])])) failing_env
     = (Inr error_response,
        [AIRun MODEL_ID \<lparr>messages = [system_x], max_tokens = 1024\<rparr>
           \<lparr>returnRawResponse = True\<rparr>,
         ConsoleError ''Error processing chat request:'' (Failure ''quota'')])
   \<and> handleChatRequest (post_chat (JObj [(''messages'', JArr [system_x])])) stub_env
     = (Inr ok_response,
        [AIRun MODEL_ID \<lparr>messages = [system_x], max_tokens = 1024\<rparr>
           \<lparr>returnRawResponse = True\<rparr>])"
  using handler_total
    [of "\<lparr>pathname = ''/api/chat'', req_method = ''POST'', json_result = Inl SyntaxError\<rparr>"
        stub_env SyntaxError]
    handler_total
    [of "post_chat (JObj [(''messages'', JArr [system_x])])" failing_env "Failure ''quota''"
        "JObj [(''messages'', JArr [system_x])]" "JArr [system_x]" "[system_x]"]
    handler_total
    [of "post_chat (JObj [(''messages'', JArr [system_x])])" stub_env _
        "JObj [(''messages'', JArr [system_x])]" "JArr [system_x]" "[system_x]" ok_response]
  by (simp add: post_chat_def destructure_messages_def add_system_prompt_def
        role_is_system_def system_x_def stub_env_def failing_env_def)



text \<open>
  C7 says that a body which is valid JSON but no object is answered with the uniform
  error response. It is not: for the body \<open>5\<close> the member \<open>messages\<close> is read through
  the number's prototype, is \<open>undefined\<close>, and the default \<open>[]\<close> stands in; the model is
  called and its response relayed.
\<close>

theorem non_object_body_counterexample:
  "json_result (post_chat (JNum 5)) = Inr (JNum 5)
   \<and> handleChatRequest (post_chat (JNum 5)) stub_env
     = (Inr ok_response,
        [AIRun MODEL_ID \<lparr>messages = [system_message], max_tokens = 1024\<rparr>
           \<lparr>returnRawResponse = True\<rparr>])
   \<and> status ok_response = 200
   \<and> ok_response \<noteq> error_response"
  by (simp add: handleChatRequest_def chat_try_def post_chat_def destructure_messages_def
        add_system_prompt_def stub_env_def ok_response_def error_response_def new_Response_def)

text \<open>
  C7, as the code has it. The body \<open>null\<close> is answered with the uniform error response
  and no model call (reading a member of \<open>null\<close> raises). Any other body that is no
  object (a number, string, boolean or array) is handled exactly as the object with an
  empty \<open>messages\<close> array: the model is called once with the system message alone.
\<close>

theorem non_object_body:
  "(json_result request = Inr JNull \<longrightarrow>
      handleChatRequest request env =
        (Inr error_response, [ConsoleError ''Error processing chat request:'' TypeError]))
   \<and> (json_result request = Inr v \<and> v \<noteq> JNull \<and> (\<forall>kvs. v \<noteq> JObj kvs) \<longrightarrow>
      handleChatRequest request env
        = handleChatRequest (request\<lparr>json_result := Inr (JObj [(''messages'', JArr [])])\<rparr>) env
      \<and> ai_calls (snd (handleChatRequest request env)) =
          [(MODEL_ID, \<lparr>messages = [system_message], max_tokens = 1024\<rparr>,
            \<lparr>returnRawResponse = True\<rparr>)])"
proof -
  have a: "json_result request = Inr JNull \<longrightarrow>
      handleChatRequest request env =
        (Inr error_response, [ConsoleError ''Error processing chat request:'' TypeError])"
    using handle_of_try_raises
      [OF chat_try_destructure_raises, of request JNull TypeError env]
    by (simp add: destructure_messages_def)
  have b: "handleChatRequest request env
        = handleChatRequest (request\<lparr>json_result := Inr (JObj [(''messages'', JArr [])])\<rparr>) env
      \<and> ai_calls (snd (handleChatRequest request env)) =
          [(MODEL_ID, \<lparr>messages = [system_message], max_tokens = 1024\<rparr>,
            \<lparr>returnRawResponse = True\<rparr>)]"
    if j: "json_result request = Inr v" and n: "v \<noteq> JNull" and o: "\<forall>kvs. v \<noteq> JObj kvs"
  proof -
    have d: "destructure_messages v = Inr (JArr [])"
      using n o by (rule destructure_non_object)
    have "handleChatRequest request env
        = handleChatRequest (request\<lparr>json_result := Inr (JObj [(''messages'', JArr [])])\<rparr>) env"
      by (rule handle_depends_on_messages [OF j])
         (simp_all add: d, simp add: destructure_messages_def)
    moreover have "ai_calls (snd (handleChatRequest request env)) =
          [(MODEL_ID, \<lparr>messages = [system_message], max_tokens = 1024\<rparr>,
            \<lparr>returnRawResponse = True\<rparr>)]"
      using j d add_system_prompt_empty by (rule handle_dispatch_calls)
    ultimately show ?thesis by simp
  qed
  from a b show ?thesis by blast
qed

theorem non_object_body_witness:
  "handleChatRequest (post_chat JNull) stub_env
     = (Inr error_response, [ConsoleError ''Error processing chat request:'' TypeError])
   \<and> handleChatRequest (post_chat (JStr ''hello'')) stub_env
     = handleChatRequest (post_chat (JObj [(''messages'', JArr [])])) stub_env
   \<and> ai_calls (snd (handleChatRequest (post_chat (JStr ''hello'')) stub_env)) =
          [(MODEL_ID, \<lparr>messages = [system_message], max_tokens = 1024\<rparr>,
            \<lparr>returnRawResponse = True\<rparr>)]"
proof -
  have u: "(post_chat (JStr ''hello'')) \<lparr>json_result := Inr (JObj [(''messages'', JArr [])])\<rparr>
              = post_chat (JObj [(''messages'', JArr [])])"
    by (simp add: post_chat_def)
  have n: "json_result (post_chat JNull) = Inr JNull"
    by (simp add: post_chat_def)
  have h: "json_result (post_chat (JStr ''hello'')) = Inr (JStr ''hello'')
      \<and> JStr ''hello'' \<noteq> JNull \<and> (\<forall>kvs. JStr ''hello'' \<noteq> JObj kvs)"
    by (simp add: post_chat_def)
  note a = non_object_body [where env = stub_env, THEN conjunct1, THEN mp, OF n]
  note b = non_object_body [where env = stub_env, THEN conjunct2, THEN mp, OF h]
  from a b [unfolded u] show ?thesis by (rule conjI)
qed

text \<open>
  C8 says that a malformed \<open>messages\<close> member is handled as the empty list. It is not:
  for the body \<open>{"messages": null}\<close> the default does not apply (it stands in for
  \<open>undefined\<close> only), \<open>null.some\<close> raises, and the answer is the uniform error response
  with no model call, whereas the empty list leads to a model call.
\<close>

theorem malformed_messages_counterexample:
  "handleChatRequest (post_chat (JObj [(''messages'', JNull)])) stub_env
     = (Inr error_response, [ConsoleError ''Error processing chat request:'' TypeError])
   \<and> ai_calls (snd (handleChatRequest (post_chat (JObj [(''messages'', JNull)])) stub_env)) = []
   \<and> handleChatRequest (post_chat (JObj [(''messages'', JArr [])])) stub_env
     = (Inr ok_response,
        [AIRun MODEL_ID \<lparr>messages = [system_message], max_tokens = 1024\<rparr>
           \<lparr>returnRawResponse = True\<rparr>])"
  by (simp add: handleChatRequest_def chat_try_def post_chat_def destructure_messages_def
        add_system_prompt_def stub_env_def)

text \<open>
  C8, as the code has it, for a body that is an object. Without a member \<open>messages\<close>
  the request is handled exactly as with the empty array: the model is called once with
  the system message alone. With a member \<open>messages\<close> that is no array (\<open>null\<close>, a
  number, string, boolean or object), and with an array in which the scan meets \<open>null\<close>
  before any system message, the answer is the uniform error response and the model is
  not called.
\<close>

theorem messages_absent_or_malformed:
  assumes "json_result request = Inr (JObj kvs)"
  shows "(map_of kvs ''messages'' = None \<longrightarrow>
      handleChatRequest request env
        = handleChatRequest (request\<lparr>json_result := Inr (JObj [(''messages'', JArr [])])\<rparr>) env
      \<and> ai_calls (snd (handleChatRequest request env)) =
          [(MODEL_ID, \<lparr>messages = [system_message], max_tokens = 1024\<rparr>,
            \<lparr>returnRawResponse = True\<rparr>)])
   \<and> (map_of kvs ''messages'' = Some m \<and> (\<forall>xs. m \<noteq> JArr xs) \<longrightarrow>
      handleChatRequest request env =
        (Inr error_response, [ConsoleError ''Error processing chat request:'' TypeError]))
   \<and> (map_of kvs ''messages'' = Some (JArr (pre @ JNull # post))
        \<and> (\<forall>x \<in> set pre. role_is_system x = Inr False) \<longrightarrow>
      handleChatRequest request env =
        (Inr error_response, [ConsoleError ''Error processing chat request:'' TypeError]))"
proof -
  have a: "handleChatRequest request env
        = handleChatRequest (request\<lparr>json_result := Inr (JObj [(''messages'', JArr [])])\<rparr>) env
      \<and> ai_calls (snd (handleChatRequest request env)) =
          [(MODEL_ID, \<lparr>messages = [system_message], max_tokens = 1024\<rparr>,
            \<lparr>returnRawResponse = True\<rparr>)]"
    if n: "map_of kvs ''messages'' = None"
  proof -
    have d: "destructure_messages (JObj kvs) = Inr (JArr [])"
      using n by (simp add: destructure_messages_def)
    have "handleChatRequest request env
        = handleChatRequest (request\<lparr>json_result := Inr (JObj [(''messages'', JArr [])])\<rparr>) env"
      by (rule handle_depends_on_messages [OF assms])
         (simp_all add: d, simp add: destructure_messages_def)
    moreover have "ai_calls (snd (handleChatRequest request env)) =
          [(MODEL_ID, \<lparr>messages = [system_message], max_tokens = 1024\<rparr>,
            \<lparr>returnRawResponse = True\<rparr>)]"
      using assms d add_system_prompt_empty by (rule handle_dispatch_calls)
    ultimately show ?thesis by simp
  qed
  have b: "handleChatRequest request env =
        (Inr error_response, [ConsoleError ''Error processing chat request:'' TypeError])"
    if s: "map_of kvs ''messages'' = Some m" and na: "\<forall>xs. m \<noteq> JArr xs"
  proof -
    have "destructure_messages (JObj kvs) = Inr m"
      using s by (simp add: destructure_messages_def)
    then have "chat_try request env = (Inl TypeError, [])"
      using assms add_system_prompt_not_array [OF na]
      by (simp add: chat_try_normalize_raises)
    then show ?thesis
      using handle_of_try_raises by fastforce
  qed
  have c: "handleChatRequest request env =
        (Inr error_response, [ConsoleError ''Error processing chat request:'' TypeError])"
    if s: "map_of kvs ''messages'' = Some (JArr (pre @ JNull # post))"
      and p: "\<forall>x \<in> set pre. role_is_system x = Inr False"
  proof -
    have "destructure_messages (JObj kvs) = Inr (JArr (pre @ JNull # post))"
      using s by (simp add: destructure_messages_def)
    moreover have "role_is_system JNull = Inl TypeError"
      by (simp add: role_is_system_def)
    then have "add_system_prompt (JArr (pre @ JNull # post)) = Inl TypeError"
      using array_some_raises [OF p, of JNull TypeError post]
      by (simp add: add_system_prompt_def)
    ultimately have "chat_try request env = (Inl TypeError, [])"
      using assms by (simp add: chat_try_normalize_raises)
    then show ?thesis
      using handle_of_try_raises by fastforce
  qed
  from a b c show ?thesis by blast
qed

theorem messages_absent_or_malformed_witness:
  "(handleChatRequest (post_chat (JObj [(''model'', JStr ''x'')])) stub_env
     = handleChatRequest (post_chat (JObj [(''messages'', JArr [])])) stub_env
   \<and> ai_calls (snd (handleChatRequest (post_chat (JObj [(''model'', JStr ''x'')])) stub_env)) =
          [(MODEL_ID, \<lparr>messages = [system_message], max_tokens = 1024\<rparr>,
            \<lparr>returnRawResponse = True\<rparr>)])
   \<and> handleChatRequest (post_chat (JObj [(''messages'', JStr ''hello'')])) stub_env
     = (Inr error_response, [ConsoleError ''Error processing chat request:'' TypeError])
   \<and> handleChatRequest (post_chat (JObj [(''messages'', JArr [user_hi, JNull, system_x])]))
        stub_env
     = (Inr error_response, [ConsoleError ''Error processing chat request:'' TypeError])"
proof -
  have u: "(post_chat (JObj [(''model'', JStr ''x'')]))
              \<lparr>json_result := Inr (JObj [(''messages'', JArr [])])\<rparr>
              = post_chat (JObj [(''messages'', JArr [])])"
    by (simp add: post_chat_def)
  have j: "json_result (post_chat (JObj kvs)) = Inr (JObj kvs)" for kvs
    by (simp add: post_chat_def)
  have h1: "map_of [(''model'', JStr ''x'')] ''messages'' = None"
    by simp
  have h2: "map_of [(''messages'', JStr ''hello'')] ''messages'' = Some (JStr ''hello'')
      \<and> (\<forall>xs. JStr ''hello'' \<noteq> JArr xs)"
    by simp
  have h3: "map_of [(''messages'', JArr [user_hi, JNull, system_x])] ''messages''
        = Some (JArr ([user_hi] @ JNull # [system_x]))
      \<and> (\<forall>x \<in> set [user_hi]. role_is_system x = Inr False)"
    by (simp add: role_is_system_def user_hi_def)
  note a = messages_absent_or_malformed
    [where env = stub_env, OF j, THEN conjunct1, THEN mp, OF h1]
  note b = messages_absent_or_malformed
    [where env = stub_env, OF j, THEN conjunct2, THEN conjunct1, THEN mp, OF h2]
  note c = messages_absent_or_malformed
    [where env = stub_env, OF j, THEN conjunct2, THEN conjunct2, THEN mp, OF h3]
  from a [unfolded u] b c show ?thesis by blast
qed

subsection \<open>Properties of the router\<close>

text \<open>
  C4. A request whose path is the chat endpoint path and whose method is not POST is
  answered with status 405 and the text body \<open>Method not allowed\<close>, and nothing is
  called: the run has no effects, whereas a run of the chat
  handler always has one (the model call or the logged error).
\<close>

theorem router_method_not_allowed:
  assumes "pathname request = ''/api/chat''"
    and "req_method request \<noteq> ''POST''"
  shows "(\<exists>r. fetch request env = (Inr r, []) \<and> status r = 405
            \<and> body r = ''Method not allowed'')
         \<and> snd (handleChatRequest request env) \<noteq> []"
  using assms by (simp add: fetch_def startsWith_def new_Response_def handle_trace_nonempty)

theorem router_method_not_allowed_witness:
  "(\<exists>r. fetch \<lparr>pathname = ''/api/chat'', req_method = ''GET'', json_result = Inl SyntaxError\<rparr>
          stub_env = (Inr r, [])
        \<and> status r = 405 \<and> body r = ''Method not allowed'')
   \<and> snd (handleChatRequest
          \<lparr>pathname = ''/api/chat'', req_method = ''GET'', json_result = Inl SyntaxError\<rparr>
          stub_env) \<noteq> []"
  using router_method_not_allowed
    [of "\<lparr>pathname = ''/api/chat'', req_method = ''GET'', json_result = Inl SyntaxError\<rparr>" stub_env]
  by simp

text \<open>
  C5. A request whose path begins with the API prefix \<open>/api/\<close> and is not the chat
  endpoint path is answered with status 404 and the text body \<open>Not found\<close>, and nothing
  is called: the run has no effects, whereas a run of the chat handler always has one.
\<close>

theorem router_not_found:
  assumes "startsWith (pathname request) ''/api/''"
    and "pathname request \<noteq> ''/api/chat''"
  shows "(\<exists>r. fetch request env = (Inr r, []) \<and> status r = 404
            \<and> body r = ''Not found'')
         \<and> snd (handleChatRequest request env) \<noteq> []"
  using assms
  by (simp add: fetch_def new_Response_def handle_trace_nonempty startsWith_api_not_root)

theorem router_not_found_witness:
  "(\<exists>r. fetch \<lparr>pathname = ''/api/unknown'', req_method = ''POST'', json_result = Inr (JObj [])\<rparr>
          stub_env = (Inr r, [])
        \<and> status r = 404 \<and> body r = ''Not found'')
   \<and> snd (handleChatRequest
          \<lparr>pathname = ''/api/unknown'', req_method = ''POST'', json_result = Inr (JObj [])\<rparr>
          stub_env) \<noteq> []"
  using router_not_found
    [of "\<lparr>pathname = ''/api/unknown'', req_method = ''POST'', json_result = Inr (JObj [])\<rparr>"
        stub_env]
  by (simp add: startsWith_def)

text \<open>
  C6. A request whose path is the root path or does not begin with the API prefix,
  whatever its method, is handed unchanged to the asset binding, exactly once, and the
  outcome of \<open>fetch\<close> is the outcome of that call.
\<close>

theorem router_delegates_assets:
  assumes "pathname request = ''/'' \<or> \<not> startsWith (pathname request) ''/api/''"
  shows "fetch request env = (ASSETS env request, [AssetsFetch request])"
  using assms by (auto simp: fetch_def)

theorem router_delegates_assets_witness:
  "fetch \<lparr>pathname = ''/styles.css'', req_method = ''DELETE'', json_result = Inl SyntaxError\<rparr>
     stub_env
     = (Inr index_response,
        [AssetsFetch
           \<lparr>pathname = ''/styles.css'', req_method = ''DELETE'', json_result = Inl SyntaxError\<rparr>])
   \<and> fetch \<lparr>pathname = ''/'', req_method = ''POST'', json_result = Inr JNull\<rparr> failing_env
     = (Inr index_response,
        [AssetsFetch \<lparr>pathname = ''/'', req_method = ''POST'', json_result = Inr JNull\<rparr>])"
  using router_delegates_assets
    [of "\<lparr>pathname = ''/styles.css'', req_method = ''DELETE'', json_result = Inl SyntaxError\<rparr>"
        stub_env]
    router_delegates_assets
    [of "\<lparr>pathname = ''/'', req_method = ''POST'', json_result = Inr JNull\<rparr>" failing_env]
  by (simp add: startsWith_def stub_env_def failing_env_def)

text \<open>
  C10. Paths are compared as strings: \<open>/api\<close> (no trailing slash) and \<open>/API/chat\<close>
  (other case) go to the asset binding, \<open>/api/chat/\<close> (trailing slash) gets the 404
  response, and the run of \<open>fetch\<close> is the run of the chat handler exactly when the
  path is \<open>/api/chat\<close> and the method is \<open>POST\<close>.
\<close>

theorem router_exact_paths:
  "(pathname request = ''/api'' \<or> pathname request = ''/API/chat''
      \<longrightarrow> fetch request env = (ASSETS env request, [AssetsFetch request]))
   \<and> (pathname request = ''/api/chat/''
      \<longrightarrow> fetch request env = (Inr (new_Response ''Not found'' 404 []), [])
          \<and> status (new_Response ''Not found'' 404 []) = 404)
   \<and> (fetch request env = handleChatRequest request env
      \<longleftrightarrow> pathname request = ''/api/chat'' \<and> req_method request = ''POST'')"
proof -
  have a: "pathname request = ''/api'' \<or> pathname request = ''/API/chat''
      \<longrightarrow> fetch request env = (ASSETS env request, [AssetsFetch request])"
    by (auto simp: fetch_def startsWith_def)
  have b: "pathname request = ''/api/chat/''
      \<longrightarrow> fetch request env = (Inr (new_Response ''Not found'' 404 []), [])
          \<and> status (new_Response ''Not found'' 404 []) = 404"
    by (auto simp: fetch_def startsWith_def new_Response_def)
  have c: "fetch request env = handleChatRequest request env
      \<longleftrightarrow> pathname request = ''/api/chat'' \<and> req_method request = ''POST''"
  proof
    assume eq: "fetch request env = handleChatRequest request env"
    show "pathname request = ''/api/chat'' \<and> req_method request = ''POST''"
    proof (rule ccontr)
      assume "\<not> ?thesis"
      then have "fetch request env = (ASSETS env request, [AssetsFetch request])
          \<or> snd (fetch request env) = []"
        by (simp add: fetch_def)
      then show False
      proof
        assume "fetch request env = (ASSETS env request, [AssetsFetch request])"
        with eq handle_not_assets [of request env] show False by metis
      next
        assume "snd (fetch request env) = []"
        with eq handle_trace_nonempty [of request env] show False by simp
      qed
    qed
  next
    assume "pathname request = ''/api/chat'' \<and> req_method request = ''POST''"
    then show "fetch request env = handleChatRequest request env"
      by (simp add: fetch_def startsWith_def)
  qed
  from a b c show ?thesis by blast
qed

theorem router_exact_paths_witness:
  "fetch \<lparr>pathname = ''/api'', req_method = ''POST'', json_result = Inr (JObj [])\<rparr> stub_env
     = (Inr index_response,
        [AssetsFetch \<lparr>pathname = ''/api'', req_method = ''POST'', json_result = Inr (JObj [])\<rparr>])
   \<and> fetch \<lparr>pathname = ''/API/chat'', req_method = ''POST'', json_result = Inr (JObj [])\<rparr> stub_env
     = (Inr index_response,
        [AssetsFetch
           \<lparr>pathname = ''/API/chat'', req_method = ''POST'', json_result = Inr (JObj [])\<rparr>])
   \<and> fetch \<lparr>pathname = ''/api/chat/'', req_method = ''POST'', json_result = Inr (JObj [])\<rparr>
        stub_env
     = (Inr \<lparr>status = 404, headers = [], body = ''Not found''\<rparr>, [])
   \<and> fetch (post_chat (JObj [])) stub_env = handleChatRequest (post_chat (JObj [])) stub_env"
  using router_exact_paths
    [of "\<lparr>pathname = ''/api'', req_method = ''POST'', json_result = Inr (JObj [])\<rparr>" stub_env]
    router_exact_paths
    [of "\<lparr>pathname = ''/API/chat'', req_method = ''POST'', json_result = Inr (JObj [])\<rparr>"
        stub_env]
    router_exact_paths
    [of "\<lparr>pathname = ''/api/chat/'', req_method = ''POST'', json_result = Inr (JObj [])\<rparr>"
        stub_env]
    router_exact_paths [of "post_chat (JObj [])" stub_env]
  by (simp add: stub_env_def new_Response_def post_chat_def)

end
